theory Spec2Isabelle
  imports Complex_Main "HOL-Library.Char_ord" "HOL-Library.List_Lexorder"
begin

section \<open>The command-line parameter registry\<close>

text \<open>
  The registry of \<^verbatim>\<open>bindings/cli/parse_command_line.hpp\<close> is a
  \<^verbatim>\<open>std::map<std::string, util::ParamData>\<close>. A \<^verbatim>\<open>std::map\<close> is
  traversed in key order, so it is modelled as an association list kept sorted by key;
  \<open>map_index\<close> is \<^verbatim>\<open>operator[]\<close>, which inserts a value-initialised entry
  when the key is missing.
\<close>

fun map_find :: "('k \<times> 'v) list \<Rightarrow> 'k \<Rightarrow> 'v option" where
  "map_find [] k = None"
| "map_find ((k', v) # r) k = (if k = k' then Some v else map_find r k)"

fun map_put :: "'k::linorder \<Rightarrow> 'v \<Rightarrow> ('k \<times> 'v) list \<Rightarrow> ('k \<times> 'v) list" where
  "map_put k v [] = [(k, v)]"
| "map_put k v ((k', v') # r) =
     (if k = k' then (k, v) # r
      else if k < k' then (k, v) # (k', v') # r
      else (k', v') # map_put k v r)"

definition map_index :: "'v \<Rightarrow> ('k \<times> 'v) list \<Rightarrow> 'k \<Rightarrow> 'v" where
  "map_index dflt m k = (case map_find m k of None \<Rightarrow> dflt | Some v \<Rightarrow> v)"

text \<open>
  The \<^verbatim>\<open>boost::any\<close> held by a parameter. A \<^verbatim>\<open>double\<close> is
  abstracted to a real number: no claim below depends on rounding.
\<close>

datatype any_value =
    EmptyValue
  | BoolValue bool
  | StringValue string
  | DoubleValue real

text \<open>
  \<^verbatim>\<open>util::ParamData\<close> (its declaration is not among the sources; the fields are the
  ones the parser reads and writes, \<^verbatim>\<open>tname\<close>, \<^verbatim>\<open>name\<close>,
  \<^verbatim>\<open>required\<close>, \<^verbatim>\<open>wasPassed\<close>, and the ones the spec's data model
  lists).
\<close>

record ParamData =
  name :: string
  desc :: string
  tname :: string
  shortAlias :: string
  wasPassed :: bool
  required :: bool
  pvalue :: any_value

text \<open>What \<^verbatim>\<open>parameters[identifier]\<close> creates for a key that is not in the map.\<close>

definition empty_ParamData :: ParamData where
  "empty_ParamData =
     \<lparr>name = [], desc = [], tname = [], shortAlias = [], wasPassed = False,
      required = False, pvalue = EmptyValue\<rparr>"

text \<open>What the routine writes to \<^verbatim>\<open>std::cout\<close>, and the calls of \<^verbatim>\<open>PrintHelp\<close>.\<close>

datatype printed =
    AppSize nat
  | OptionLine string
  | VersionLine string string
  | HelpText "string option"

text \<open>
  The process-wide state: the \<^verbatim>\<open>CMD\<close> singleton, the flag
  \<^verbatim>\<open>Log::Info.ignoreInput\<close> and the standard output.
\<close>

record CMD =
  parameters :: "(string \<times> ParamData) list"
  aliases :: "(char \<times> string) list"
  didParse :: bool
  ProgramName :: string
  info_ignoreInput :: bool
  cout :: "printed list"

text \<open>
  How a call ends: it returns, the process exits (\<^verbatim>\<open>exit(0)\<close>),
  \<^verbatim>\<open>Log::Fatal\<close> throws \<^verbatim>\<open>std::runtime_error\<close> with the message, or
  another exception leaves the function.
\<close>

datatype outcome =
    Returned
  | Exit nat
  | Fatal string
  | Uncaught string

definition print_out :: "printed \<Rightarrow> CMD \<Rightarrow> CMD" where
  "print_out x cmd = cmd\<lparr>cout := cout cmd @ [x]\<rparr>"

text \<open>
  Modelled from the spec: \<^verbatim>\<open>CMD::Add\<close>, the registration behind the
  \<^verbatim>\<open>PARAM_*\<close> macros (not among the sources). It inserts into the mapping, records
  the short alias, and fails when the canonical name is already present.
\<close>

definition Add :: "ParamData \<Rightarrow> CMD \<Rightarrow> string + CMD" where
  "Add d cmd =
     (case map_find (parameters cmd) (name d) of
        Some _ \<Rightarrow> Inl (''Parameter --'' @ name d @ '' is defined multiple times.'')
      | None \<Rightarrow>
          Inr (cmd\<lparr>parameters := map_put (name d) d (parameters cmd),
                   aliases := (case shortAlias d of
                                 [c] \<Rightarrow> (c, name d) # aliases cmd
                               | _ \<Rightarrow> aliases cmd)\<rparr>))"

text \<open>
  Modelled from the spec: \<^verbatim>\<open>CMD::HasParam\<close> (not among the sources). It resolves the
  given string through the alias table first, fails with an unknown-parameter error when
  the name resolves to nothing, and otherwise answers the entry's "was passed" flag.
\<close>

definition resolve_alias :: "CMD \<Rightarrow> string \<Rightarrow> string" where
  "resolve_alias cmd key =
     (case key of
        [c] \<Rightarrow> (case map_find (aliases cmd) c of Some n \<Rightarrow> n | None \<Rightarrow> key)
      | _ \<Rightarrow> key)"

definition unknown_parameter :: "string \<Rightarrow> string" where
  "unknown_parameter key = ''Parameter --'' @ key @ '' does not exist in this program.''"

definition HasParam :: "CMD \<Rightarrow> string \<Rightarrow> string + bool" where
  "HasParam cmd key =
     (case map_find (parameters cmd) (resolve_alias cmd key) of
        None \<Rightarrow> Inl (unknown_parameter key)
      | Some d \<Rightarrow> Inr (wasPassed d))"

text \<open>
  Modelled from the spec: \<^verbatim>\<open>CMD::GetParam\<close> (not among the sources), for the value
  types used here, which need no lazy loading: it returns the stored value.
\<close>

definition GetParam :: "CMD \<Rightarrow> string \<Rightarrow> string + any_value" where
  "GetParam cmd key =
     (case map_find (parameters cmd) (resolve_alias cmd key) of
        None \<Rightarrow> Inl (unknown_parameter key)
      | Some d \<Rightarrow> Inr (pvalue d))"

section \<open>ParseCommandLine\<close>

text \<open>
  The collaborators of \<^verbatim>\<open>ParseCommandLine\<close> that are not among the sources are
  taken as parameters:
  \<^item> \<open>AddToPO\<close> and \<open>MapParameterName\<close>, the two entries of
    \<^verbatim>\<open>functionMap[d.tname]\<close> the routine calls (the dispatch on \<open>tname d\<close> is
    inside the function, which receives \<open>d\<close>);
  \<^item> the argument parser \<^verbatim>\<open>CLI::App\<close>: the empty application, \<^verbatim>\<open>parse\<close>
    (\<open>Inl what\<close> is a thrown \<^verbatim>\<open>CLI::ParseError\<close>), the names
    \<^verbatim>\<open>get_name()\<close> of the options of \<^verbatim>\<open>get_options()\<close>,
    \<^verbatim>\<open>count(name)\<close> and \<^verbatim>\<open>count_all()\<close>;
  \<^item> \<^verbatim>\<open>util::GetVersion()\<close>.
\<close>

record 'app bindings =
  AddToPO :: "ParamData \<Rightarrow> 'app \<Rightarrow> 'app"
  MapParameterName :: "ParamData \<Rightarrow> string"
  new_app :: 'app
  app_parse :: "'app \<Rightarrow> string list \<Rightarrow> string + 'app"
  get_options :: "'app \<Rightarrow> string list"
  app_count :: "'app \<Rightarrow> string \<Rightarrow> nat"
  count_all :: "'app \<Rightarrow> nat"
  GetVersion :: string

text \<open>
  The first loop: every registered parameter is added to the parser, and
  \<^verbatim>\<open>boostNameMap[boostName] = d.name\<close> records the reverse map. The loop variable
  is a copy of the map's entry (\<^verbatim>\<open>for (const auto it : parameters)\<close>), so nothing
  here can write to the registry.
\<close>

fun add_parameters ::
  "'app bindings \<Rightarrow> (string \<times> ParamData) list \<Rightarrow> 'app \<times> (string \<rightharpoonup> string)
     \<Rightarrow> 'app \<times> (string \<rightharpoonup> string)" where
  "add_parameters B [] acc = acc"
| "add_parameters B ((k, d) # ps) (app, boostNameMap) =
     add_parameters B ps
       (AddToPO B d app, boostNameMap(MapParameterName B d \<mapsto> name d))"

text \<open>
  The second loop runs over \<^verbatim>\<open>app.get_options()\<close>. For each option it prints the
  name, reads \<^verbatim>\<open>boostNameMap[option->get_name()]\<close> (the empty string when the name
  is not a key) and sets \<^verbatim>\<open>wasPassed\<close> of \<^verbatim>\<open>parameters[identifier]\<close>. The
  call of \<^verbatim>\<open>SetParam\<close> is commented out in the source.
\<close>

definition mark_option :: "(string \<rightharpoonup> string) \<Rightarrow> CMD \<Rightarrow> string \<Rightarrow> CMD" where
  "mark_option boostNameMap cmd opt =
     (let cmd1 = print_out (OptionLine opt) cmd;
          identifier = (case boostNameMap opt of None \<Rightarrow> [] | Some n \<Rightarrow> n);
          param = map_index empty_ParamData (parameters cmd1) identifier
      in cmd1\<lparr>parameters :=
                map_put identifier (param\<lparr>wasPassed := True\<rparr>) (parameters cmd1)\<rparr>)"

fun mark_options :: "(string \<rightharpoonup> string) \<Rightarrow> string list \<Rightarrow> CMD \<Rightarrow> CMD" where
  "mark_options boostNameMap [] cmd = cmd"
| "mark_options boostNameMap (opt # opts) cmd =
     mark_options boostNameMap opts (mark_option boostNameMap cmd opt)"

text \<open>
  The last loop: the first required parameter (in key order) that the parser did not
  count under its mapped name. The source declares \<^verbatim>\<open>boostName\<close> constant and
  lets \<open>MapParameterName\<close> fill it through a pointer; the model takes the name
  the function writes.
\<close>

fun missing_required ::
  "'app bindings \<Rightarrow> 'app \<Rightarrow> (string \<times> ParamData) list \<Rightarrow> string option" where
  "missing_required B app [] = None"
| "missing_required B app ((k, d) # ps) =
     (if required d \<and> app_count B app (MapParameterName B d) = 0
      then Some (MapParameterName B d)
      else missing_required B app ps)"

definition required_undefined :: "string \<Rightarrow> string" where
  "required_undefined boostName = ''Required option --'' @ boostName @ '' is undefined.''"

text \<open>
  \<^verbatim>\<open>--verbose\<close>, then the check of the required options. The line written to
  \<^verbatim>\<open>Log::Debug\<close> before it appears in debug builds only and is left out.
\<close>

definition verbose_and_required :: "'app bindings \<Rightarrow> 'app \<Rightarrow> CMD \<Rightarrow> outcome \<times> CMD" where
  "verbose_and_required B app cmd =
     (case HasParam cmd ''verbose'' of
        Inl e \<Rightarrow> (Fatal e, cmd)
      | Inr v \<Rightarrow>
          (let cmd1 = (if v then cmd\<lparr>info_ignoreInput := False\<rparr> else cmd)
           in case missing_required B app (parameters cmd1) of
                Some boostName \<Rightarrow> (Fatal (required_undefined boostName), cmd1)
              | None \<Rightarrow> (Returned, cmd1)))"

text \<open>\<^verbatim>\<open>--info\<close>: help on one parameter, or the general help.\<close>

definition info_option :: "CMD \<Rightarrow> outcome \<times> CMD" where
  "info_option cmd =
     (let cmd1 = cmd\<lparr>info_ignoreInput := False\<rparr>
      in case GetParam cmd1 ''info'' of
           Inl e \<Rightarrow> (Fatal e, cmd1)
         | Inr (StringValue str) \<Rightarrow>
             (if str \<noteq> [] then (Exit 0, print_out (HelpText (Some str)) cmd1)
              else (Exit 0, print_out (HelpText None) cmd1))
         | Inr _ \<Rightarrow> (Uncaught ''boost::bad_any_cast'', cmd1))"

text \<open>The default options, in the order of the source: version, help, info.\<close>

definition default_options :: "'app bindings \<Rightarrow> 'app \<Rightarrow> CMD \<Rightarrow> outcome \<times> CMD" where
  "default_options B app cmd =
     (case HasParam cmd ''version'' of
        Inl e \<Rightarrow> (Fatal e, cmd)
      | Inr True \<Rightarrow> (Exit 0, print_out (VersionLine (ProgramName cmd) (GetVersion B)) cmd)
      | Inr False \<Rightarrow>
          (case HasParam cmd ''help'' of
             Inl e \<Rightarrow> (Fatal e, cmd)
           | Inr True \<Rightarrow>
               (Exit 0, print_out (HelpText None) (cmd\<lparr>info_ignoreInput := False\<rparr>))
           | Inr False \<Rightarrow>
               (case HasParam cmd ''info'' of
                  Inl e \<Rightarrow> (Fatal e, cmd)
                | Inr True \<Rightarrow> info_option cmd
                | Inr False \<Rightarrow> verbose_and_required B app cmd)))"

definition parse_failure :: "string \<Rightarrow> string" where
  "parse_failure what = ''Caught exception from parsing command line: '' @ what"

text \<open>
  The first half of the routine: the options are added, \<^verbatim>\<open>didParse\<close> is set, the
  parser runs inside the \<^verbatim>\<open>try\<close> block, and the options of the application are
  marked. \<open>Inl what\<close> is the \<^verbatim>\<open>CLI::ParseError\<close> the \<^verbatim>\<open>catch\<close> clause
  receives. The duplicate check inside the \<^verbatim>\<open>try\<close> block is commented out in the
  source, so nothing stands between the parser and the marking loop.
\<close>

definition parse_and_mark ::
  "'app bindings \<Rightarrow> string list \<Rightarrow> CMD \<Rightarrow> string + ('app \<times> CMD)" where
  "parse_and_mark B argv cmd =
     (case add_parameters B (parameters cmd) (new_app B, Map.empty) of
        (app, boostNameMap) \<Rightarrow>
          (case app_parse B app argv of
             Inl what \<Rightarrow> Inl what
           | Inr app' \<Rightarrow>
               Inr (app',
                    mark_options boostNameMap (get_options B app')
                      (print_out (AppSize (count_all B app')) (cmd\<lparr>didParse := True\<rparr>)))))"

definition ParseCommandLine :: "'app bindings \<Rightarrow> string list \<Rightarrow> CMD \<Rightarrow> outcome \<times> CMD" where
  "ParseCommandLine B argv cmd =
     (case parse_and_mark B argv cmd of
        Inl what \<Rightarrow> (Fatal (parse_failure what), cmd\<lparr>didParse := True\<rparr>)
      | Inr (app', cmd2) \<Rightarrow> default_options B app' cmd2)"

section \<open>Registered parameters\<close>

text \<open>
  The \<^verbatim>\<open>PARAM_*\<close> macros (\<^verbatim>\<open>core/util/param.hpp\<close>, not among the sources)
  build the \<^verbatim>\<open>ParamData\<close> of an option from its name, description, alias and
  default; a flag is a \<^verbatim>\<open>bool\<close> parameter with default \<^verbatim>\<open>false\<close>.
\<close>

definition PARAM_FLAG :: "string \<Rightarrow> string \<Rightarrow> string \<Rightarrow> ParamData" where
  "PARAM_FLAG ident d a =
     \<lparr>name = ident, desc = d, tname = ''bool'', shortAlias = a, wasPassed = False,
      required = False, pvalue = BoolValue False\<rparr>"

definition PARAM_STRING_IN :: "string \<Rightarrow> string \<Rightarrow> string \<Rightarrow> string \<Rightarrow> ParamData" where
  "PARAM_STRING_IN ident d a dflt =
     \<lparr>name = ident, desc = d, tname = ''string'', shortAlias = a, wasPassed = False,
      required = False, pvalue = StringValue dflt\<rparr>"

definition PARAM_DOUBLE_IN :: "string \<Rightarrow> string \<Rightarrow> string \<Rightarrow> real \<Rightarrow> ParamData" where
  "PARAM_DOUBLE_IN ident d a dflt =
     \<lparr>name = ident, desc = d, tname = ''double'', shortAlias = a, wasPassed = False,
      required = False, pvalue = DoubleValue dflt\<rparr>"


text \<open>\<^verbatim>\<open>CMD::ClearSettings()\<close>: the empty registry.\<close>

definition ClearSettings :: CMD where
  "ClearSettings =
     \<lparr>parameters = [], aliases = [], didParse = False, ProgramName = [],
      info_ignoreInput = True, cout = []\<rparr>"

fun register_all :: "ParamData list \<Rightarrow> CMD \<Rightarrow> string + CMD" where
  "register_all [] cmd = Inr cmd"
| "register_all (d # ds) cmd =
     (case Add d cmd of Inl e \<Rightarrow> Inl e | Inr cmd' \<Rightarrow> register_all ds cmd')"

text \<open>The registry after the registrations \<open>ds\<close> (empty when one of them fails).\<close>

definition registry_of :: "ParamData list \<Rightarrow> CMD" where
  "registry_of ds = (case register_all ds ClearSettings of Inl e \<Rightarrow> ClearSettings | Inr cmd \<Rightarrow> cmd)"

text \<open>
  The parameters \<^verbatim>\<open>parse_command_line.hpp\<close> itself registers (lines 26 to 31):
  \<^verbatim>\<open>info\<close>, \<^verbatim>\<open>verbose\<close> and \<^verbatim>\<open>version\<close>. The registration of
  \<^verbatim>\<open>help\<close> is commented out there.
\<close>

definition default_parameters :: "ParamData list" where
  "default_parameters =
     [PARAM_STRING_IN ''info'' ''Print help'' [] [],
      PARAM_FLAG ''verbose'' ''Be verbose'' ''v'',
      PARAM_FLAG ''version'' ''Version'' []]"

text \<open>
  \<^verbatim>\<open>AddRequiredCMDOptions()\<close> of \<^verbatim>\<open>tests/cli_test.cpp\<close>: the tests clear the
  registry and register \<^verbatim>\<open>help\<close>, \<^verbatim>\<open>info\<close>, \<^verbatim>\<open>verbose\<close> and
  \<^verbatim>\<open>version\<close> themselves.
\<close>

definition AddRequiredCMDOptions :: "ParamData list" where
  "AddRequiredCMDOptions =
     [PARAM_FLAG ''help'' ''Help'' ''h'',
      PARAM_STRING_IN ''info'' ''Print help'' [] [],
      PARAM_FLAG ''verbose'' ''Be verbose'' ''v'',
      PARAM_FLAG ''version'' ''Version'' ''V'']"

section \<open>A small argument parser\<close>

text \<open>
  To run \<open>ParseCommandLine\<close> on a concrete command line the parameters of
  \<open>bindings\<close> need values. \<open>simple_cli shown\<close> is a small parser of long options:
  \<^item> \<open>AddToPO\<close> appends an option named after the parameter, a flag when the
    parameter is a \<^verbatim>\<open>bool\<close>; \<open>MapParameterName\<close> is the parameter's name;
  \<^item> parsing skips \<^verbatim>\<open>argv[0]\<close> and counts the occurrences of \<^verbatim>\<open>--name\<close>
    (a valued option takes the next token); it fails on a token that is no option, on
    a missing value, and on the second occurrence of a valued option, which CLI11
    refuses by default; a repeated flag is counted;
  \<^item> the options are all the options that were added, supplied or not, as
    \<^verbatim>\<open>CLI::App::get_options()\<close> documents; \<open>shown\<close> is what
    \<^verbatim>\<open>get_name()\<close> puts before the name: nothing, so that the names are the keys of
    \<^verbatim>\<open>boostNameMap\<close>, or the dashes \<^verbatim>\<open>--\<close> that CLI11 prints.
\<close>

record cli_option =
  long_name :: string
  is_flag :: bool
  times :: nat

fun find_option :: "cli_option list \<Rightarrow> string \<Rightarrow> cli_option option" where
  "find_option [] n = None"
| "find_option (opt # opts) n = (if long_name opt = n then Some opt else find_option opts n)"

fun count_option :: "string \<Rightarrow> cli_option list \<Rightarrow> cli_option list" where
  "count_option n [] = []"
| "count_option n (opt # opts) =
     (if long_name opt = n then opt\<lparr>times := Suc (times opt)\<rparr> # opts
      else opt # count_option n opts)"

fun parse_tokens :: "cli_option list \<Rightarrow> string list \<Rightarrow> string + cli_option list" where
  "parse_tokens app [] = Inr app"
| "parse_tokens app [t] =
     (case find_option app (drop 2 t) of
        None \<Rightarrow> Inl (''The following argument was not expected: '' @ t)
      | Some opt \<Rightarrow>
          (if take 2 t \<noteq> ''--'' then Inl (''The following argument was not expected: '' @ t)
           else if is_flag opt then Inr (count_option (drop 2 t) app)
           else Inl (t @ '': 1 required TEXT missing'')))"
| "parse_tokens app (t # v # ts) =
     (case find_option app (drop 2 t) of
        None \<Rightarrow> Inl (''The following argument was not expected: '' @ t)
      | Some opt \<Rightarrow>
          (if take 2 t \<noteq> ''--'' then Inl (''The following argument was not expected: '' @ t)
           else if is_flag opt then parse_tokens (count_option (drop 2 t) app) (v # ts)
           else if 0 < times opt then Inl (t @ '': At most 1 required but received 2'')
           else parse_tokens (count_option (drop 2 t) app) ts))"

definition simple_cli :: "string \<Rightarrow> cli_option list bindings" where
  "simple_cli shown =
     \<lparr>AddToPO = (\<lambda>d app. app @ [\<lparr>long_name = name d, is_flag = (tname d = ''bool''), times = 0\<rparr>]),
      MapParameterName = name,
      new_app = [],
      app_parse = (\<lambda>app argv. parse_tokens app (tl argv)),
      get_options = map (\<lambda>opt. shown @ long_name opt),
      app_count = (\<lambda>app n. case find_option app n of None \<Rightarrow> 0 | Some opt \<Rightarrow> times opt),
      count_all = (\<lambda>app. sum_list (map times app)),
      GetVersion = ''mlpack''\<rparr>"

section \<open>Matrices and sizes\<close>

text \<open>
  An \<^verbatim>\<open>arma::Mat\<close> is stored by columns: the model keeps the number of rows and the
  list of columns. A \<^verbatim>\<open>size_t\<close> has 64 bits; products and differences of sizes
  wrap around.
\<close>

record 'a Mat =
  n_rows :: nat
  columns :: "'a list list"

definition n_cols :: "'a Mat \<Rightarrow> nat" where
  "n_cols M = length (columns M)"

definition n_elem :: "'a Mat \<Rightarrow> nat" where
  "n_elem M = n_rows M * n_cols M"

definition empty_Mat :: "'a Mat" where
  "empty_Mat = \<lparr>n_rows = 0, columns = []\<rparr>"

definition size_t_times :: "nat \<Rightarrow> nat \<Rightarrow> nat" where
  "size_t_times a b = (a * b) mod 2 ^ 64"

definition size_t_minus :: "nat \<Rightarrow> nat \<Rightarrow> nat" where
  "size_t_minus a b = (a + 2 ^ 64 - b mod 2 ^ 64) mod 2 ^ 64"

text \<open>\<^verbatim>\<open>set_size(r, c)\<close> allocates without initialising: every cell holds \<open>junk\<close>.\<close>

definition set_size :: "'a \<Rightarrow> nat \<Rightarrow> nat \<Rightarrow> 'a Mat" where
  "set_size junk r c = \<lparr>n_rows = r, columns = replicate c (replicate r junk)\<rparr>"

definition set_col :: "'a Mat \<Rightarrow> nat \<Rightarrow> 'a list \<Rightarrow> 'a Mat" where
  "set_col M i col = M\<lparr>columns := (columns M)[i := col]\<rparr>"

section \<open>ResizeImages\<close>

text \<open>
  \<^verbatim>\<open>core/data/image_resize_crop.hpp\<close>. The template parameter \<^verbatim>\<open>eT\<close> selects one
  of three branches of the loop at compile time. The resampling routines of the STB
  library, the conversion \<^verbatim>\<open>arma::conv_to\<close> to \<^verbatim>\<open>unsigned char\<close> and the
  content of fresh memory are parameters; a resampling routine fills the whole
  destination buffer, whose cell \<open>k\<close> it computes from the source pixels, the two
  sizes and the layout.
\<close>

datatype elem_type = UnsignedChar | Float | OtherType

datatype stbir_pixel_layout = STBIR_1CHANNEL | STBIR_RGB

record ImageInfo =
  Width :: nat
  Height :: nat
  Channels :: nat

record 'p stb =
  stbir_resize_uint8_linear ::
    "'p list \<Rightarrow> nat \<Rightarrow> nat \<Rightarrow> nat \<Rightarrow> nat \<Rightarrow> stbir_pixel_layout \<Rightarrow> nat \<Rightarrow> 'p"
  stbir_resize_float_linear ::
    "'p list \<Rightarrow> nat \<Rightarrow> nat \<Rightarrow> nat \<Rightarrow> nat \<Rightarrow> stbir_pixel_layout \<Rightarrow> nat \<Rightarrow> 'p"
  to_unsigned_char :: "'p \<Rightarrow> 'p"
  fresh_memory :: 'p

text \<open>
  How \<open>ResizeImages\<close> can fail: \<^verbatim>\<open>Log::Fatal\<close> with the message of the dimension
  check, or a read of the local variable \<^verbatim>\<open>channels\<close> that no branch has assigned.
\<close>

datatype resize_failure = FatalError string | UninitializedRead

definition single_image_mismatch :: string where
  "single_image_mismatch =
     ''Dimensions mismatch. ResizeImages(): the number of pixels is not equal to the dimension provided by Info.''"

definition several_images_mismatch :: string where
  "several_images_mismatch =
     ''Dimensions mismatch. ResizeImages(): In the case of several images, please check if all the images have the same dimensions already, if not, load each image in one column and recall this function.''"

definition check_dimensions :: "'p Mat \<Rightarrow> ImageInfo \<Rightarrow> string option" where
  "check_dimensions images info =
     (if n_cols images = 1
      then (if n_elem images \<noteq> size_t_times (size_t_times (Width info) (Height info)) (Channels info)
            then Some single_image_mismatch else None)
      else (if n_rows images \<noteq> size_t_times (size_t_times (Width info) (Height info)) (Channels info)
            then Some several_images_mismatch else None))"

text \<open>
  \<^verbatim>\<open>stbir_pixel_layout channels;\<close> is declared without a value and assigned in two
  branches only: \<open>None\<close> is the unassigned variable.
\<close>

definition pixel_layout :: "ImageInfo \<Rightarrow> stbir_pixel_layout option" where
  "pixel_layout info =
     (if Channels info = 1 then Some STBIR_1CHANNEL
      else if Channels info = 3 then Some STBIR_RGB
      else None)"

text \<open>
  The loop over the columns. The state is the pair of \<^verbatim>\<open>resizedFloatImages\<close> and
  \<^verbatim>\<open>resizedImages\<close>; every iteration passes \<^verbatim>\<open>channels\<close> to the resampling
  routine.
\<close>

fun resize_columns ::
  "'p stb \<Rightarrow> elem_type \<Rightarrow> 'p Mat \<Rightarrow> ImageInfo \<Rightarrow> nat \<Rightarrow> nat \<Rightarrow> nat
     \<Rightarrow> stbir_pixel_layout option \<Rightarrow> nat list \<Rightarrow> 'p Mat \<times> 'p Mat
     \<Rightarrow> resize_failure + ('p Mat \<times> 'p Mat)" where
  "resize_columns S eT images info newWidth newHeight newDimension channels [] acc = Inr acc"
| "resize_columns S eT images info newWidth newHeight newDimension channels (i # is)
     (resizedFloatImages, resizedImages) =
     (case channels of
        None \<Rightarrow> Inl UninitializedRead
      | Some layout \<Rightarrow>
          (case eT of
             UnsignedChar \<Rightarrow>
               resize_columns S eT images info newWidth newHeight newDimension channels is
                 (resizedFloatImages,
                  set_col resizedImages i
                    (map (stbir_resize_uint8_linear S (columns images ! i)
                            (Width info) (Height info) newWidth newHeight layout)
                       [0..<newDimension]))
           | Float \<Rightarrow>
               resize_columns S eT images info newWidth newHeight newDimension channels is
                 (set_col resizedFloatImages i
                    (map (stbir_resize_float_linear S (columns images ! i)
                            (Width info) (Height info) newWidth newHeight layout)
                       [0..<newDimension]),
                  resizedImages)
           | OtherType \<Rightarrow>
               resize_columns S eT images info newWidth newHeight newDimension channels is
                 (resizedFloatImages,
                  set_col resizedImages i
                    (map (stbir_resize_uint8_linear S
                            (map (to_unsigned_char S) (columns images ! i))
                            (Width info) (Height info) newWidth newHeight layout)
                       [0..<newDimension]))))"

text \<open>
  The routine: the dimension check, the layout, the allocation of one of the two
  result matrices, the loop, and \<^verbatim>\<open>images = std::move(resizedImages)\<close> for every
  \<^verbatim>\<open>eT\<close>. It returns the new \<^verbatim>\<open>images\<close> and \<^verbatim>\<open>info\<close>.
\<close>

definition ResizeImages ::
  "'p stb \<Rightarrow> elem_type \<Rightarrow> 'p Mat \<Rightarrow> ImageInfo \<Rightarrow> nat \<Rightarrow> nat
     \<Rightarrow> resize_failure + ('p Mat \<times> ImageInfo)" where
  "ResizeImages S eT images info newWidth newHeight =
     (case check_dimensions images info of
        Some msg \<Rightarrow> Inl (FatalError msg)
      | None \<Rightarrow>
          (let channels = pixel_layout info;
               newDimension = size_t_times (size_t_times newWidth newHeight) (Channels info);
               resizedFloatImages =
                 (if eT = Float then set_size (fresh_memory S) newDimension (n_cols images)
                  else empty_Mat);
               resizedImages =
                 (if eT = Float then empty_Mat
                  else set_size (fresh_memory S) newDimension (n_cols images))
           in case resize_columns S eT images info newWidth newHeight newDimension channels
                     [0..<n_cols images] (resizedFloatImages, resizedImages) of
                Inl e \<Rightarrow> Inl e
              | Inr (resizedFloatImages', resizedImages') \<Rightarrow>
                  Inr (resizedImages', info\<lparr>Width := newWidth, Height := newHeight\<rparr>)))"

text \<open>
  A resampler to run the routine on small images: every cell of the destination is the
  first pixel of the source.
\<close>

definition sample_stb :: "nat stb" where
  "sample_stb =
     \<lparr>stbir_resize_uint8_linear = (\<lambda>src iw ih ow oh layout k. case src of [] \<Rightarrow> 0 | x # _ \<Rightarrow> x),
      stbir_resize_float_linear = (\<lambda>src iw ih ow oh layout k. case src of [] \<Rightarrow> 0 | x # _ \<Rightarrow> x),
      to_unsigned_char = (\<lambda>x. x mod 256),
      fresh_memory = 0\<rparr>"

section \<open>The linear_regression_predict binding\<close>

text \<open>
  \<^verbatim>\<open>methods/linear_regression/linear_regression_predict_main.cpp\<close>. The binding has
  three parameters: the model \<^verbatim>\<open>input_model\<close>, the matrix \<^verbatim>\<open>test\<close> and the
  row \<^verbatim>\<open>output_predictions\<close>. The timers are left out.
\<close>

record LinearRegression =
  Parameters :: "real list"

record predict_params =
  input_model_passed :: bool
  input_model :: LinearRegression
  test_passed :: bool
  test :: "real Mat"
  output_predictions :: "real list"

text \<open>
  Modelled from the spec: \<^verbatim>\<open>RequireOnlyOnePassed\<close> (\<^verbatim>\<open>core/util/param_checks\<close>,
  not among the sources), from its name, its \<^verbatim>\<open>fatal\<close> argument and the comments
  at its two calls ("input_model must be passed", "test matrix must be passed"):
  unless exactly one of the named parameters was passed it fails, fatally when
  \<^verbatim>\<open>fatal\<close> is set.
\<close>

definition RequireOnlyOnePassed :: "(string \<times> bool) list \<Rightarrow> bool \<Rightarrow> string option" where
  "RequireOnlyOnePassed named fatal =
     (if length (filter snd named) = 1 then None
      else if fatal then Some (''Must specify one of: '' @ concat (map fst named))
      else None)"

text \<open>
  Modelled from the spec: \<^verbatim>\<open>LinearRegression::Predict\<close> (\<^verbatim>\<open>linear_regression.hpp\<close>,
  not among the sources), the matrix product \<^verbatim>\<open>y' = X' * b\<close> of the binding's
  description: one response for each column of the points, the intercept \<open>b\<^sub>0\<close> plus
  the inner product of the column with the other coefficients.
\<close>

definition predict_point :: "real list \<Rightarrow> real list \<Rightarrow> real" where
  "predict_point b x =
     (case b of [] \<Rightarrow> 0 | b0 # bs \<Rightarrow> b0 + sum_list (map (\<lambda>(c, v). c * v) (zip bs x)))"

definition Predict :: "LinearRegression \<Rightarrow> real Mat \<Rightarrow> real list" where
  "Predict lr points = map (predict_point (Parameters lr)) (columns points)"

definition wrong_dimension :: string where
  "wrong_dimension = ''The model was trained on data of another dimension than the test points!''"

text \<open>
  The binding function. \<^verbatim>\<open>std::move\<close> leaves the \<^verbatim>\<open>test\<close> parameter empty;
  \<^verbatim>\<open>lr->Parameters().n_elem - 1\<close> is a difference of \<^verbatim>\<open>size_t\<close>.
\<close>

definition linear_regression_predict :: "predict_params \<Rightarrow> string + predict_params" where
  "linear_regression_predict params =
     (case RequireOnlyOnePassed [(''input_model'', input_model_passed params)] True of
        Some e \<Rightarrow> Inl e
      | None \<Rightarrow>
          (case RequireOnlyOnePassed [(''test'', test_passed params)] True of
             Some e \<Rightarrow> Inl e
           | None \<Rightarrow>
               (let lr = input_model params;
                    points = test params;
                    params1 = params\<lparr>test := empty_Mat\<rparr>
                in if size_t_minus (length (Parameters lr)) 1 \<noteq> n_rows points
                   then Inl wrong_dimension
                   else Inr (params1\<lparr>output_predictions := Predict lr points\<rparr>))))"

section \<open>The scenarios of the test suite\<close>

text \<open>
  The registries of the tests of \<^verbatim>\<open>tests/cli_test.cpp\<close> that call
  \<^verbatim>\<open>ParseCommandLine\<close>: each registers the four default options and one option of
  its own.
\<close>

definition DoubleParamTest :: CMD where
  "DoubleParamTest =
     registry_of (AddRequiredCMDOptions @ [PARAM_DOUBLE_IN ''double'' ''Test double'' ''d'' 0])"

definition TestBooleanOption :: CMD where
  "TestBooleanOption =
     registry_of (AddRequiredCMDOptions @ [PARAM_FLAG ''flag_test'' ''flag test'' []])"

definition TestDuplicateFlag :: CMD where
  "TestDuplicateFlag = registry_of (AddRequiredCMDOptions @ [PARAM_FLAG ''test'' ''test'' ''t''])"

definition TestDuplicateParam :: CMD where
  "TestDuplicateParam = registry_of AddRequiredCMDOptions"


definition UnknownOptionTest :: CMD where
  "UnknownOptionTest = registry_of AddRequiredCMDOptions"

text \<open>The registry that holds the four default options of the tests and nothing else.\<close>

definition OnlyDefaultOptions :: CMD where
  "OnlyDefaultOptions = registry_of AddRequiredCMDOptions"


text \<open>The registry of a program that registers nothing beyond the parser's own options.\<close>

definition default_registry :: CMD where
  "default_registry = registry_of default_parameters"

text \<open>
  The registry as the marking loop leaves it (when the parser accepted the command
  line).
\<close>

definition marked :: "'app bindings \<Rightarrow> string list \<Rightarrow> CMD \<Rightarrow> CMD" where
  "marked B argv cmd = snd (projr (parse_and_mark B argv cmd))"

section \<open>The registry under ParseCommandLine\<close>



lemma map_find_map_put:
  "map_find (map_put k v m) k' = (if k' = k then Some v else map_find m k')"
  by (induction m) auto

lemma aliases_mark_option: "aliases (mark_option m cmd opt) = aliases cmd"
  by (simp add: mark_option_def print_out_def Let_def)

lemma aliases_mark_options: "aliases (mark_options m opts cmd) = aliases cmd"
  by (induction opts arbitrary: cmd) (simp_all add: aliases_mark_option)

lemma map_find_mark_option:
  "map_find (parameters cmd) k = Some d \<Longrightarrow>
   \<exists>d'. map_find (parameters (mark_option m cmd opt)) k = Some d' \<and>
        (d' = d \<or> d' = d\<lparr>wasPassed := True\<rparr>)"
  by (auto simp: mark_option_def print_out_def Let_def map_find_map_put map_index_def)

lemma map_find_mark_options:
  "map_find (parameters cmd) k = Some d \<Longrightarrow>
   \<exists>d'. map_find (parameters (mark_options m opts cmd)) k = Some d' \<and>
        (d' = d \<or> d' = d\<lparr>wasPassed := True\<rparr>)"
proof (induction opts arbitrary: cmd d)
  case Nil
  then show ?case by simp
next
  case (Cons opt opts)
  from map_find_mark_option [OF Cons.prems, of m opt]
  obtain d1 where d1: "map_find (parameters (mark_option m cmd opt)) k = Some d1"
    and rel: "d1 = d \<or> d1 = d\<lparr>wasPassed := True\<rparr>" by blast
  from Cons.IH [OF d1] obtain d' where
    "map_find (parameters (mark_options m opts (mark_option m cmd opt))) k = Some d'"
    "d' = d1 \<or> d' = d1\<lparr>wasPassed := True\<rparr>" by blast
  with rel show ?case by auto
qed

lemma parameters_verbose_and_required:
  "parameters (snd (verbose_and_required B app cmd)) = parameters cmd"
  "aliases (snd (verbose_and_required B app cmd)) = aliases cmd"
  by (simp_all add: verbose_and_required_def Let_def split: sum.splits option.splits)

lemma parameters_info_option:
  "parameters (snd (info_option cmd)) = parameters cmd"
  "aliases (snd (info_option cmd)) = aliases cmd"
  by (simp_all add: info_option_def Let_def print_out_def split: sum.splits any_value.splits)

lemma parameters_default_options:
  "parameters (snd (default_options B app cmd)) = parameters cmd"
  "aliases (snd (default_options B app cmd)) = aliases cmd"
  by (simp_all add: default_options_def print_out_def parameters_info_option
        parameters_verbose_and_required split: sum.splits bool.splits)

lemma resolve_alias_aliases:
  "aliases c1 = aliases c2 \<Longrightarrow> resolve_alias c1 key = resolve_alias c2 key"
  by (simp add: resolve_alias_def split: list.splits)

lemma parse_and_mark_aliases:
  "parse_and_mark B argv cmd = Inr (app', cmd2) \<Longrightarrow> aliases cmd2 = aliases cmd"
  by (auto simp: parse_and_mark_def print_out_def aliases_mark_options split: prod.splits sum.splits)

lemma parse_and_mark_find:
  "parse_and_mark B argv cmd = Inr (app', cmd2) \<Longrightarrow> map_find (parameters cmd) k = Some d \<Longrightarrow>
   \<exists>d'. map_find (parameters cmd2) k = Some d' \<and> (d' = d \<or> d' = d\<lparr>wasPassed := True\<rparr>)"
  by (auto simp: parse_and_mark_def print_out_def split: prod.splits sum.splits
      intro!: map_find_mark_options)

text \<open>
  Claim C1. The claim: for a parameter the parser saw, the routine sets "was passed" and
  copies the parsed value into the registry, so that \<open>GetParam\<close> returns it
  afterwards (3.12 for \<^verbatim>\<open>--double 3.12\<close>). The code does not: the call of
  \<^verbatim>\<open>SetParam\<close> is commented out and the first loop works on copies, so for every
  parser, every \<open>AddToPO\<close> and every command line, \<open>GetParam\<close> answers after the
  call what it answered before it, the default.
\<close>

theorem ParseCommandLine_keeps_values:
  "GetParam cmd key = Inr v \<Longrightarrow> GetParam (snd (ParseCommandLine B argv cmd)) key = Inr v"
proof -
  assume g: "GetParam cmd key = Inr v"
  then obtain d where d: "map_find (parameters cmd) (resolve_alias cmd key) = Some d" "pvalue d = v"
    by (auto simp: GetParam_def split: option.splits)
  show ?thesis
  proof (cases "parse_and_mark B argv cmd")
    case (Inl what)
    have "resolve_alias (cmd\<lparr>didParse := True\<rparr>) key = resolve_alias cmd key"
      by (rule resolve_alias_aliases) simp
    then show ?thesis using g Inl by (simp add: ParseCommandLine_def GetParam_def)
  next
    case (Inr r)
    obtain app' cmd2 where r: "r = (app', cmd2)" by (cases r)
    from parse_and_mark_find [OF Inr [unfolded r] d(1)] obtain d' where
      d': "map_find (parameters cmd2) (resolve_alias cmd key) = Some d'" "d' = d \<or> d' = d\<lparr>wasPassed := True\<rparr>"
      by blast
    have al: "aliases cmd2 = aliases cmd" using parse_and_mark_aliases [of B argv cmd app' cmd2] Inr r by simp
    have "resolve_alias (snd (default_options B app' cmd2)) key = resolve_alias cmd key"
      by (rule resolve_alias_aliases) (simp add: parameters_default_options al)
    then have "GetParam (snd (default_options B app' cmd2)) key = Inr v"
      using d' d(2) by (auto simp: GetParam_def parameters_default_options)
    then show ?thesis using Inr r by (simp add: ParseCommandLine_def)
  qed
qed


theorem ParseCommandLine_keeps_values_witness:
  "GetParam DoubleParamTest ''double'' = Inr (DoubleValue 0) \<and>
   fst (ParseCommandLine (simple_cli ''--'') [''./test'', ''--double'', ''3.12''] DoubleParamTest)
     = Returned \<and>
   GetParam (snd (ParseCommandLine (simple_cli ''--'') [''./test'', ''--double'', ''3.12'']
       DoubleParamTest)) ''double'' = Inr (DoubleValue 0) \<and>
   GetParam (snd (ParseCommandLine (simple_cli []) [''./test'', ''--double'', ''3.12'']
       DoubleParamTest)) ''double'' = Inr (DoubleValue 0)"
proof -
  have before: "GetParam DoubleParamTest ''double'' = Inr (DoubleValue 0)"
    by code_simp
  have returns:
    "fst (ParseCommandLine (simple_cli ''--'') [''./test'', ''--double'', ''3.12''] DoubleParamTest)
       = Returned"
    by code_simp
  show ?thesis
    using before returns
      ParseCommandLine_keeps_values [OF before, of "simple_cli ''--''"]
      ParseCommandLine_keeps_values [OF before, of "simple_cli []"]
    by simp
qed

section \<open>What the marking loop does\<close>

lemma parameters_mark_option:
  "parameters (mark_option m cmd opt) =
     map_put (case m opt of None \<Rightarrow> [] | Some n \<Rightarrow> n)
       ((map_index empty_ParamData (parameters cmd) (case m opt of None \<Rightarrow> [] | Some n \<Rightarrow> n))
          \<lparr>wasPassed := True\<rparr>)
       (parameters cmd)"
  by (simp add: mark_option_def print_out_def Let_def)

lemma parameters_mark_options_cong:
  "parameters c1 = parameters c2 \<Longrightarrow>
   parameters (mark_options m opts c1) = parameters (mark_options m opts c2)"
proof (induction opts arbitrary: c1 c2)
  case Nil
  then show ?case by simp
next
  case (Cons opt opts)
  have "parameters (mark_option m c1 opt) = parameters (mark_option m c2 opt)"
    using Cons.prems by (simp add: parameters_mark_option)
  then have "parameters (mark_options m opts (mark_option m c1 opt)) =
      parameters (mark_options m opts (mark_option m c2 opt))"
    by (rule Cons.IH)
  then show ?case by simp
qed

lemma parse_and_mark_Inr:
  assumes "parse_and_mark B argv cmd = Inr (app', cmd2)"
  shows "cmd2 = mark_options (snd (add_parameters B (parameters cmd) (new_app B, Map.empty)))
      (get_options B app')
      (print_out (AppSize (count_all B app')) (cmd\<lparr>didParse := True\<rparr>))"
proof (cases "add_parameters B (parameters cmd) (new_app B, Map.empty)")
  case (Pair app m)
  show ?thesis
  proof (cases "app_parse B app argv")
    case (Inl what)
    then show ?thesis using assms Pair by (simp add: parse_and_mark_def)
  next
    case (Inr a)
    then show ?thesis using assms Pair by (auto simp: parse_and_mark_def)
  qed
qed

lemma map_find_None: "map_find m k = None \<longleftrightarrow> k \<notin> set (map fst m)"
  by (induction m k rule: map_find.induct) auto

lemma add_parameters_names:
  "add_parameters B ps (app, m) = (app', m') \<Longrightarrow> m' opt = Some n \<Longrightarrow>
   m opt = Some n \<or> n \<in> set (map (name \<circ> snd) ps)"
proof (induction ps arbitrary: app m)
  case Nil
  then show ?case by simp
next
  case (Cons p ps)
  obtain k d where p: "p = (k, d)" by (cases p)
  from Cons.prems(1) have
    "add_parameters B ps (AddToPO B d app, m(MapParameterName B d \<mapsto> name d)) = (app', m')"
    by (simp add: p)
  from Cons.IH [OF this Cons.prems(2)] show ?case
    by (auto simp: p split: if_splits)
qed

lemma mark_option_absent:
  "map_find (parameters cmd) k = None \<Longrightarrow> k \<noteq> [] \<Longrightarrow> \<forall>opt. m opt \<noteq> Some k \<Longrightarrow>
   map_find (parameters (mark_option m cmd opt)) k = None"
  by (auto simp: parameters_mark_option map_find_map_put split: option.splits)

lemma mark_options_absent:
  "map_find (parameters cmd) k = None \<Longrightarrow> k \<noteq> [] \<Longrightarrow> \<forall>opt. m opt \<noteq> Some k \<Longrightarrow>
   map_find (parameters (mark_options m opts cmd)) k = None"
  by (induction opts arbitrary: cmd) (simp_all add: mark_option_absent)

lemma add_parameters_absent:
  assumes "add_parameters B ps (new_app B, Map.empty) = (app, m)"
    and "k \<notin> set (map (name \<circ> snd) ps)"
  shows "m opt \<noteq> Some k"
proof
  assume "m opt = Some k"
  from add_parameters_names [OF assms(1) this] assms(2) show False by simp
qed

lemma parse_and_mark_absent:
  assumes "parse_and_mark B argv cmd = Inr (app', cmd2)"
    and "k \<notin> set (map fst (parameters cmd))"
    and "k \<notin> set (map (name \<circ> snd) (parameters cmd))"
    and "k \<noteq> []"
  shows "map_find (parameters cmd2) k = None"
proof -
  obtain app m where am: "add_parameters B (parameters cmd) (new_app B, Map.empty) = (app, m)"
    by (cases "add_parameters B (parameters cmd) (new_app B, Map.empty)")
  have m: "\<forall>opt. m opt \<noteq> Some k"
    using add_parameters_absent [OF am assms(3)] by simp
  have c2: "cmd2 = mark_options m (get_options B app')
      (print_out (AppSize (count_all B app')) (cmd\<lparr>didParse := True\<rparr>))"
    using assms(1) am by (auto simp: parse_and_mark_def split: sum.splits)
  have start: "map_find (parameters (print_out (AppSize (count_all B app'))
      (cmd\<lparr>didParse := True\<rparr>))) k = None"
    using assms(2) by (simp add: map_find_None print_out_def)
  show ?thesis
    unfolding c2 by (rule mark_options_absent [OF start assms(4) m])
qed

lemma resolve_alias_long: "resolve_alias cmd (a # b # r) = a # b # r"
  by (simp add: resolve_alias_def)


lemma missing_required_Some:
  "missing_required B app ps = Some n \<Longrightarrow>
     \<exists>(k, d) \<in> set ps. required d \<and> app_count B app (MapParameterName B d) = 0 \<and>
        n = MapParameterName B d"
  by (induction ps) (auto split: if_splits)

text \<open>
  Once the parser has accepted the command line, the only fatal errors left are the
  unknown-parameter errors of the four default names and the missing required option.
\<close>

lemma HasParam_Inl: "HasParam cmd key = Inl e \<Longrightarrow> e = unknown_parameter key"
  by (simp add: HasParam_def split: option.splits)

lemma GetParam_Inl: "GetParam cmd key = Inl e \<Longrightarrow> e = unknown_parameter key"
  by (simp add: GetParam_def split: option.splits)

lemma fatal_verbose_and_required:
  "fst (verbose_and_required B app cmd) = Fatal e \<Longrightarrow>
   e = unknown_parameter ''verbose'' \<or> (\<exists>n. e = required_undefined n)"
  by (auto simp: verbose_and_required_def Let_def dest: HasParam_Inl
      split: sum.splits option.splits)

lemma fatal_info_option:
  "fst (info_option cmd) = Fatal e \<Longrightarrow> e = unknown_parameter ''info''"
  by (auto simp: info_option_def Let_def dest: GetParam_Inl
      split: sum.splits any_value.splits if_splits)

lemma fatal_default_options:
  "fst (default_options B app cmd) = Fatal e \<Longrightarrow>
   e = unknown_parameter ''version'' \<or> e = unknown_parameter ''help'' \<or>
   e = unknown_parameter ''info'' \<or> e = unknown_parameter ''verbose'' \<or>
   (\<exists>n. e = required_undefined n)"
  by (auto simp: default_options_def dest: HasParam_Inl fatal_info_option
      fatal_verbose_and_required split: sum.splits bool.splits)

lemma fatal_after_parse:
  assumes "parse_and_mark B argv cmd = Inr (app', cmd2)"
    and "fst (ParseCommandLine B argv cmd) = Fatal e"
  shows "e = unknown_parameter ''version'' \<or> e = unknown_parameter ''help'' \<or>
         e = unknown_parameter ''info'' \<or> e = unknown_parameter ''verbose'' \<or>
         (\<exists>n. e = required_undefined n)"
  using assms fatal_default_options [of B app' cmd2 e] by (simp add: ParseCommandLine_def)





text \<open>
  The branch the default options take is read from the registry alone: two registries
  with the same parameters, aliases and program name take the same branch and print
  the same text.
\<close>

lemma ProgramName_mark_options: "ProgramName (mark_options m opts cmd) = ProgramName cmd"
  by (induction opts arbitrary: cmd) (simp_all add: mark_option_def print_out_def Let_def)

lemma HasParam_cong:
  "parameters c1 = parameters c2 \<Longrightarrow> aliases c1 = aliases c2 \<Longrightarrow> HasParam c1 key = HasParam c2 key"
  using resolve_alias_aliases [of c1 c2 key] by (simp add: HasParam_def)

lemma GetParam_cong:
  "parameters c1 = parameters c2 \<Longrightarrow> aliases c1 = aliases c2 \<Longrightarrow> GetParam c1 key = GetParam c2 key"
  using resolve_alias_aliases [of c1 c2 key] by (simp add: GetParam_def)

lemma verbose_and_required_no_exit: "fst (verbose_and_required B app cmd) \<noteq> Exit n"
  by (simp add: verbose_and_required_def Let_def split: sum.splits option.splits)

lemma info_option_cong:
  assumes "parameters c1 = parameters c2" and "aliases c1 = aliases c2"
  shows "fst (info_option c1) = fst (info_option c2) \<and>
         (fst (info_option c1) = Exit 0 \<longrightarrow>
            last (cout (snd (info_option c1))) = last (cout (snd (info_option c2))))"
proof -
  have "GetParam (c1\<lparr>info_ignoreInput := False\<rparr>) ''info'' =
        GetParam (c2\<lparr>info_ignoreInput := False\<rparr>) ''info''"
    by (rule GetParam_cong) (simp_all add: assms)
  then show ?thesis
    by (simp add: info_option_def Let_def print_out_def split: sum.splits any_value.splits)
qed

lemma default_options_cong:
  assumes "parameters c1 = parameters c2" and "aliases c1 = aliases c2"
    and "ProgramName c1 = ProgramName c2"
  shows "(fst (default_options B a1 c1) = Exit 0 \<longleftrightarrow> fst (default_options B a2 c2) = Exit 0) \<and>
         (fst (default_options B a1 c1) = Exit 0 \<longrightarrow>
            last (cout (snd (default_options B a1 c1))) =
            last (cout (snd (default_options B a2 c2))))"
proof -
  have h: "HasParam c1 key = HasParam c2 key" for key
    by (rule HasParam_cong [OF assms(1,2)])
  show ?thesis
  proof (cases "HasParam c2 ''version''")
    case (Inl e)
    then show ?thesis by (simp add: default_options_def h)
  next
    case v: (Inr b)
    show ?thesis
    proof (cases b)
      case True
      then show ?thesis using v by (simp add: default_options_def h print_out_def assms(3))
    next
      case nv: False
      show ?thesis
      proof (cases "HasParam c2 ''help''")
        case (Inl e)
        then show ?thesis using v nv by (simp add: default_options_def h)
      next
        case hp: (Inr b2)
        show ?thesis
        proof (cases b2)
          case True
          then show ?thesis using v nv hp by (simp add: default_options_def h print_out_def)
        next
          case nh: False
          show ?thesis
          proof (cases "HasParam c2 ''info''")
            case (Inl e)
            then show ?thesis using v nv hp nh by (simp add: default_options_def h)
          next
            case ip: (Inr b3)
            show ?thesis
            proof (cases b3)
              case True
              then show ?thesis using v nv hp nh ip info_option_cong [OF assms(1,2)]
                by (simp add: default_options_def h)
            next
              case False
              then show ?thesis using v nv hp nh ip
                by (simp add: default_options_def h verbose_and_required_no_exit)
            qed
          qed
        qed
      qed
    qed
  qed
qed

section \<open>The claims about ParseCommandLine\<close>

text \<open>
  Claim C2. The claim: a valued option given twice is a fatal error that names the
  option by its original token, and a flag given twice is accepted and left true. The
  duplicate check of the source is commented out, so a repeated option is an error
  only when the parser refuses it, with the parser's message (the small parser refuses
  \<^verbatim>\<open>--info test1 --info test2\<close> as CLI11 does). A repeated flag is not left
  true: for every parser and every command line the value of a flag that was false
  before the call is false after it, because the call stores no value (the defect of
  claim C1); in \<^verbatim>\<open>TestDuplicateFlag\<close> the flag is counted twice, the call
  returns, and both the value and \<open>HasParam\<close> of the flag are false.
\<close>

theorem repeated_flag_stays_false:
  assumes g: "GetParam cmd flag = Inr (BoolValue False)"
  shows "GetParam (snd (ParseCommandLine B argv cmd)) flag = Inr (BoolValue False)"
proof -
  from g obtain d where d: "map_find (parameters cmd) (resolve_alias cmd flag) = Some d" "pvalue d = BoolValue False"
    by (auto simp: GetParam_def split: option.splits)
  show ?thesis
  proof (cases "parse_and_mark B argv cmd")
    case (Inl what)
    have "resolve_alias (cmd\<lparr>didParse := True\<rparr>) flag = resolve_alias cmd flag"
      by (rule resolve_alias_aliases) simp
    then show ?thesis using g Inl by (simp add: ParseCommandLine_def GetParam_def)
  next
    case (Inr r)
    obtain app' cmd2 where r: "r = (app', cmd2)" by (cases r)
    from parse_and_mark_find [OF Inr [unfolded r] d(1)] obtain d' where
      d': "map_find (parameters cmd2) (resolve_alias cmd flag) = Some d'"
        "d' = d \<or> d' = d\<lparr>wasPassed := True\<rparr>"
      by blast
    have al: "aliases cmd2 = aliases cmd"
      using parse_and_mark_aliases [of B argv cmd app' cmd2] Inr r by simp
    have "resolve_alias (snd (default_options B app' cmd2)) flag = resolve_alias cmd flag"
      by (rule resolve_alias_aliases) (simp add: parameters_default_options al)
    then have "GetParam (snd (default_options B app' cmd2)) flag = Inr (BoolValue False)"
      using d' d(2) by (auto simp: GetParam_def parameters_default_options)
    then show ?thesis using Inr r by (simp add: ParseCommandLine_def)
  qed
qed

theorem repeated_flag_stays_false_witness:
  "GetParam TestDuplicateFlag ''test'' = Inr (BoolValue False) \<and>
   app_count (simple_cli ''--'')
     (fst (projr (parse_and_mark (simple_cli ''--'') [''./test'', ''--test'', ''--test'']
        TestDuplicateFlag))) ''test'' = 2 \<and>
   fst (ParseCommandLine (simple_cli ''--'') [''./test'', ''--test'', ''--test''] TestDuplicateFlag)
     = Returned \<and>
   GetParam (snd (ParseCommandLine (simple_cli ''--'') [''./test'', ''--test'', ''--test'']
     TestDuplicateFlag)) ''test'' = Inr (BoolValue False) \<and>
   HasParam (snd (ParseCommandLine (simple_cli ''--'') [''./test'', ''--test'', ''--test'']
     TestDuplicateFlag)) ''test'' = Inr False \<and>
   GetParam (snd (ParseCommandLine (simple_cli []) [''./test'', ''--test'', ''--test'']
     TestDuplicateFlag)) ''test'' = Inr (BoolValue False) \<and>
   fst (ParseCommandLine (simple_cli ''--'')
     [''./test'', ''--info'', ''test1'', ''--info'', ''test2''] TestDuplicateParam) =
     Fatal ''Caught exception from parsing command line: --info: At most 1 required but received 2''"
proof -
  let ?C = "simple_cli ''--''"
  let ?a = "[''./test'', ''--test'', ''--test'']"
  have before: "GetParam TestDuplicateFlag ''test'' = Inr (BoolValue False)" by code_simp
  have twice: "app_count ?C (fst (projr (parse_and_mark ?C ?a TestDuplicateFlag))) ''test'' = 2"
    by code_simp
  have returns: "fst (ParseCommandLine ?C ?a TestDuplicateFlag) = Returned" by code_simp
  have has: "HasParam (snd (ParseCommandLine ?C ?a TestDuplicateFlag)) ''test'' = Inr False"
    by code_simp
  have refused: "fst (ParseCommandLine ?C
     [''./test'', ''--info'', ''test1'', ''--info'', ''test2''] TestDuplicateParam) =
     Fatal ''Caught exception from parsing command line: --info: At most 1 required but received 2''"
    by code_simp
  note after1 = repeated_flag_stays_false [OF before, of ?C ?a]
  note after2 = repeated_flag_stays_false [OF before, of "simple_cli []" ?a]
  show ?thesis by (intro conjI before twice returns after1 has after2 refused)
qed

text \<open>
  Claim C3. The claim: after the call \<open>HasParam\<close> is true exactly for the
  parameters that were supplied. The marking loop runs over all options of the
  application and never asks whether one was supplied: two command lines that the
  parser accepts, and after which the application lists the same options, leave the
  same answers of \<open>HasParam\<close>, whatever each of them supplies.
\<close>

theorem marking_ignores_command_line:
  assumes "parse_and_mark B argv1 cmd = Inr (app1, cmd1)"
    and "parse_and_mark B argv2 cmd = Inr (app2, cmd2)"
    and "get_options B app1 = get_options B app2"
  shows "HasParam cmd1 key = HasParam cmd2 key"
proof -
  have p: "parameters cmd1 = parameters cmd2"
    unfolding parse_and_mark_Inr [OF assms(1)] parse_and_mark_Inr [OF assms(2)] assms(3)
    by (rule parameters_mark_options_cong) (simp add: print_out_def)
  have a: "aliases cmd1 = aliases cmd2"
    using parse_and_mark_aliases [OF assms(1)] parse_and_mark_aliases [OF assms(2)] by simp
  have "resolve_alias cmd1 key = resolve_alias cmd2 key"
    using a by (rule resolve_alias_aliases)
  then show ?thesis by (simp add: HasParam_def p)
qed

theorem marking_ignores_command_line_witness:
  "fst (ParseCommandLine (simple_cli ''--'') [''programname''] TestBooleanOption) = Returned \<and>
   fst (ParseCommandLine (simple_cli ''--'') [''programname'', ''--flag_test''] TestBooleanOption)
     = Returned \<and>
   app_count (simple_cli ''--'')
     (fst (projr (parse_and_mark (simple_cli ''--'') [''programname'', ''--flag_test'']
        TestBooleanOption))) ''flag_test'' = 1 \<and>
   HasParam (marked (simple_cli ''--'') [''programname''] TestBooleanOption) ''flag_test''
     = Inr False \<and>
   HasParam (marked (simple_cli ''--'') [''programname'', ''--flag_test''] TestBooleanOption)
     ''flag_test'' = Inr False \<and>
   HasParam (snd (ParseCommandLine (simple_cli []) [''programname''] TestBooleanOption))
     ''flag_test'' = Inr True"
proof -
  let ?C = "simple_cli ''--''"
  let ?a1 = "[''programname'']" and ?a2 = "[''programname'', ''--flag_test'']"
  let ?app1 = "fst (projr (parse_and_mark ?C ?a1 TestBooleanOption))"
  let ?app2 = "fst (projr (parse_and_mark ?C ?a2 TestBooleanOption))"
  let ?m1 = "marked ?C ?a1 TestBooleanOption" and ?m2 = "marked ?C ?a2 TestBooleanOption"
  have p1: "parse_and_mark ?C ?a1 TestBooleanOption = Inr (?app1, ?m1)" by code_simp
  have p2: "parse_and_mark ?C ?a2 TestBooleanOption = Inr (?app2, ?m2)" by code_simp
  have same: "get_options ?C ?app1 = get_options ?C ?app2" by code_simp
  have absent: "HasParam ?m1 ''flag_test'' = Inr False" by code_simp
  have r1: "fst (ParseCommandLine ?C ?a1 TestBooleanOption) = Returned" by code_simp
  have r2: "fst (ParseCommandLine ?C ?a2 TestBooleanOption) = Returned" by code_simp
  have c: "app_count ?C ?app2 ''flag_test'' = 1" by code_simp
  have all: "HasParam (snd (ParseCommandLine (simple_cli []) ?a1 TestBooleanOption))
     ''flag_test'' = Inr True" by code_simp
  show ?thesis
    using marking_ignores_command_line [OF p1 p2 same, of "''flag_test''"] absent r1 r2 c all
    by simp
qed




text \<open>
  Claim C5. The claim: a \<^verbatim>\<open>version\<close> that was passed prints the version and
  ends the run, otherwise a \<^verbatim>\<open>help\<close> that was passed prints the help, otherwise
  an \<^verbatim>\<open>info\<close> that was passed prints the help of the named parameter. The
  branches are in that order in the source, but they read the flags the marking loop
  set, and those do not depend on the command line (the defect of claim C3): two
  command lines that the parser accepts, and after which the application lists the same
  options, end in a default option or not together, and print the same text last. So
  either \<^verbatim>\<open>--version\<close>, \<^verbatim>\<open>--help\<close> and \<^verbatim>\<open>--info\<close> print nothing and
  the call returns, or every command line prints the version.
\<close>

theorem default_options_ignore_command_line:
  assumes "parse_and_mark B argv1 cmd = Inr (app1, cmd1)"
    and "parse_and_mark B argv2 cmd = Inr (app2, cmd2)"
    and "get_options B app1 = get_options B app2"
  shows "(fst (ParseCommandLine B argv1 cmd) = Exit 0 \<longleftrightarrow>
          fst (ParseCommandLine B argv2 cmd) = Exit 0) \<and>
         (fst (ParseCommandLine B argv1 cmd) = Exit 0 \<longrightarrow>
            last (cout (snd (ParseCommandLine B argv1 cmd))) =
            last (cout (snd (ParseCommandLine B argv2 cmd))))"
proof -
  have p: "parameters cmd1 = parameters cmd2"
    unfolding parse_and_mark_Inr [OF assms(1)] parse_and_mark_Inr [OF assms(2)] assms(3)
    by (rule parameters_mark_options_cong) (simp add: print_out_def)
  have a: "aliases cmd1 = aliases cmd2"
    using parse_and_mark_aliases [OF assms(1)] parse_and_mark_aliases [OF assms(2)] by simp
  have n: "ProgramName cmd1 = ProgramName cmd2"
    unfolding parse_and_mark_Inr [OF assms(1)] parse_and_mark_Inr [OF assms(2)]
    by (simp add: ProgramName_mark_options print_out_def)
  show ?thesis
    using default_options_cong [OF p a n, of B app1 app2] assms(1,2)
    by (simp add: ParseCommandLine_def)
qed

theorem default_options_ignore_command_line_witness:
  "fst (ParseCommandLine (simple_cli ''--'') [''./test''] OnlyDefaultOptions) = Returned \<and>
   fst (ParseCommandLine (simple_cli ''--'') [''./test'', ''--version''] OnlyDefaultOptions)
     \<noteq> Exit 0 \<and>
   ParseCommandLine (simple_cli ''--'') [''./test'', ''--version''] OnlyDefaultOptions =
     (Returned,
      (marked (simple_cli ''--'') [''./test'', ''--version''] OnlyDefaultOptions)) \<and>
   cout (snd (ParseCommandLine (simple_cli ''--'') [''./test'', ''--version''] OnlyDefaultOptions)) =
     [AppSize 1, OptionLine ''--help'', OptionLine ''--info'', OptionLine ''--verbose'',
      OptionLine ''--version''] \<and>
   cout (snd (ParseCommandLine (simple_cli ''--'') [''./test'', ''--help''] OnlyDefaultOptions)) =
     [AppSize 1, OptionLine ''--help'', OptionLine ''--info'', OptionLine ''--verbose'',
      OptionLine ''--version''] \<and>
   cout (snd (ParseCommandLine (simple_cli ''--'') [''./test'', ''--info'', ''double'']
       OnlyDefaultOptions)) =
     [AppSize 1, OptionLine ''--help'', OptionLine ''--info'', OptionLine ''--verbose'',
      OptionLine ''--version''] \<and>
   fst (ParseCommandLine (simple_cli []) [''./test'', ''--help''] OnlyDefaultOptions) = Exit 0 \<and>
   cout (snd (ParseCommandLine (simple_cli []) [''./test'', ''--help''] OnlyDefaultOptions)) =
     [AppSize 1, OptionLine ''help'', OptionLine ''info'', OptionLine ''verbose'',
      OptionLine ''version'', VersionLine [] ''mlpack''] \<and>
   cout (snd (ParseCommandLine (simple_cli []) [''./test''] OnlyDefaultOptions)) =
     [AppSize 0, OptionLine ''help'', OptionLine ''info'', OptionLine ''verbose'',
      OptionLine ''version'', VersionLine [] ''mlpack'']"
proof -
  let ?C = "simple_cli ''--''" and ?B = "simple_cli []"
  let ?a1 = "[''./test'']" and ?a2 = "[''./test'', ''--version'']"
  let ?a3 = "[''./test'', ''--help'']" and ?a4 = "[''./test'', ''--info'', ''double'']"
  let ?X = OnlyDefaultOptions
  have p1: "parse_and_mark ?C ?a1 ?X =
      Inr (fst (projr (parse_and_mark ?C ?a1 ?X)), marked ?C ?a1 ?X)" by code_simp
  have p2: "parse_and_mark ?C ?a2 ?X =
      Inr (fst (projr (parse_and_mark ?C ?a2 ?X)), marked ?C ?a2 ?X)" by code_simp
  have same: "get_options ?C (fst (projr (parse_and_mark ?C ?a1 ?X))) =
      get_options ?C (fst (projr (parse_and_mark ?C ?a2 ?X)))" by code_simp
  have r1: "fst (ParseCommandLine ?C ?a1 ?X) = Returned" by code_simp
  have r2: "fst (ParseCommandLine ?C ?a2 ?X) \<noteq> Exit 0"
    using default_options_ignore_command_line [OF p1 p2 same] r1 by simp
  have r3: "ParseCommandLine ?C ?a2 ?X = (Returned, marked ?C ?a2 ?X)" by code_simp
  have c2: "cout (snd (ParseCommandLine ?C ?a2 ?X)) =
     [AppSize 1, OptionLine ''--help'', OptionLine ''--info'', OptionLine ''--verbose'',
      OptionLine ''--version'']" by code_simp
  have c3: "cout (snd (ParseCommandLine ?C ?a3 ?X)) =
     [AppSize 1, OptionLine ''--help'', OptionLine ''--info'', OptionLine ''--verbose'',
      OptionLine ''--version'']" by code_simp
  have c4: "cout (snd (ParseCommandLine ?C ?a4 ?X)) =
     [AppSize 1, OptionLine ''--help'', OptionLine ''--info'', OptionLine ''--verbose'',
      OptionLine ''--version'']" by code_simp
  have e5: "fst (ParseCommandLine ?B ?a3 ?X) = Exit 0" by code_simp
  have c5: "cout (snd (ParseCommandLine ?B ?a3 ?X)) =
     [AppSize 1, OptionLine ''help'', OptionLine ''info'', OptionLine ''verbose'',
      OptionLine ''version'', VersionLine [] ''mlpack'']" by code_simp
  have c6: "cout (snd (ParseCommandLine ?B ?a1 ?X)) =
     [AppSize 0, OptionLine ''help'', OptionLine ''info'', OptionLine ''verbose'',
      OptionLine ''version'', VersionLine [] ''mlpack'']" by code_simp
  show ?thesis by (intro conjI r1 r2 r3 c2 c3 c4 e5 c5 c6)
qed

text \<open>
  Claim C6. An exception of the parser is caught and becomes the fatal error
  "Caught exception from parsing command line: ..."; the call ends with
  \<^verbatim>\<open>Log::Fatal\<close>, never with the parser's own exception.
\<close>

theorem parse_error_is_fatal:
  "app_parse B (fst (add_parameters B (parameters cmd) (new_app B, Map.empty))) argv = Inl what \<Longrightarrow>
   ParseCommandLine B argv cmd = (Fatal (parse_failure what), cmd\<lparr>didParse := True\<rparr>)"
  by (cases "add_parameters B (parameters cmd) (new_app B, Map.empty)")
    (simp add: ParseCommandLine_def parse_and_mark_def)

theorem parse_error_is_fatal_witness:
  "app_parse (simple_cli ''--'')
     (fst (add_parameters (simple_cli ''--'') (parameters UnknownOptionTest)
        (new_app (simple_cli ''--''), Map.empty))) [''./test'', ''--unknown'']
     = Inl ''The following argument was not expected: --unknown'' \<and>
   ParseCommandLine (simple_cli ''--'') [''./test'', ''--unknown''] UnknownOptionTest =
     (Fatal ''Caught exception from parsing command line: The following argument was not expected: --unknown'',
      UnknownOptionTest\<lparr>didParse := True\<rparr>)"
proof -
  have thrown: "app_parse (simple_cli ''--'')
     (fst (add_parameters (simple_cli ''--'') (parameters UnknownOptionTest)
        (new_app (simple_cli ''--''), Map.empty))) [''./test'', ''--unknown'']
     = Inl ''The following argument was not expected: --unknown''"
    by code_simp
  show ?thesis
    using thrown parse_error_is_fatal [OF thrown] by (simp add: parse_failure_def)
qed

text \<open>
  Claim C7. The claim: \<^verbatim>\<open>info\<close>, \<^verbatim>\<open>verbose\<close>, \<^verbatim>\<open>version\<close> and
  \<^verbatim>\<open>help\<close> are always registered. The registration of \<^verbatim>\<open>help\<close> is
  commented out in the source while the routine still asks \<open>HasParam\<close> for it: in
  a program that does not register \<^verbatim>\<open>help\<close> itself, no command line makes
  the call return or print help; it ends in a fatal error or in the version branch.
\<close>

theorem help_is_not_registered:
  assumes "''help'' \<notin> set (map fst (parameters cmd))"
    and "''help'' \<notin> set (map (name \<circ> snd) (parameters cmd))"
  shows "(\<exists>e. fst (ParseCommandLine B argv cmd) = Fatal e) \<or>
         (\<exists>cmd2. ParseCommandLine B argv cmd =
            (Exit 0, print_out (VersionLine (ProgramName cmd2) (GetVersion B)) cmd2))"
proof (cases "parse_and_mark B argv cmd")
  case (Inl what)
  then show ?thesis by (simp add: ParseCommandLine_def)
next
  case (Inr r)
  obtain app' cmd2 where r: "r = (app', cmd2)" by (cases r)
  have ne: "''help'' \<noteq> []" by simp
  have "map_find (parameters cmd2) ''help'' = None"
    by (rule parse_and_mark_absent [OF Inr [unfolded r] assms ne])
  then have h: "HasParam cmd2 ''help'' = Inl (unknown_parameter ''help'')"
    by (simp add: HasParam_def resolve_alias_long)
  have run: "ParseCommandLine B argv cmd = default_options B app' cmd2"
    using Inr r by (simp add: ParseCommandLine_def)
  show ?thesis
  proof (cases "HasParam cmd2 ''version''")
    case (Inl e)
    then have "fst (default_options B app' cmd2) = Fatal e"
      by (simp add: default_options_def)
    then show ?thesis unfolding run by blast
  next
    case v: (Inr b)
    show ?thesis
    proof (cases b)
      case True
      then have "default_options B app' cmd2 =
          (Exit 0, print_out (VersionLine (ProgramName cmd2) (GetVersion B)) cmd2)"
        using v by (simp add: default_options_def)
      then show ?thesis unfolding run by blast
    next
      case False
      then have "fst (default_options B app' cmd2) = Fatal (unknown_parameter ''help'')"
        using v h by (simp add: default_options_def)
      then show ?thesis unfolding run by blast
    qed
  qed
qed

theorem help_is_not_registered_witness:
  "''help'' \<notin> set (map fst (parameters default_registry)) \<and>
   ''help'' \<notin> set (map (name \<circ> snd) (parameters default_registry)) \<and>
   ((\<exists>e. fst (ParseCommandLine (simple_cli ''--'') [''program'', ''--help''] default_registry)
       = Fatal e) \<or>
    (\<exists>cmd2. ParseCommandLine (simple_cli ''--'') [''program'', ''--help''] default_registry =
       (Exit 0, print_out (VersionLine (ProgramName cmd2) (GetVersion (simple_cli ''--''))) cmd2))) \<and>
   fst (ParseCommandLine (simple_cli ''--'') [''program'', ''--help''] default_registry) =
     Fatal ''Caught exception from parsing command line: The following argument was not expected: --help'' \<and>
   fst (ParseCommandLine (simple_cli ''--'') [''program''] default_registry) =
     Fatal ''Parameter --help does not exist in this program.'' \<and>
   fst (ParseCommandLine (simple_cli []) [''program''] default_registry) = Exit 0"
proof -
  have k: "''help'' \<notin> set (map fst (parameters default_registry))" by code_simp
  have n: "''help'' \<notin> set (map (name \<circ> snd) (parameters default_registry))" by code_simp
  have e1: "fst (ParseCommandLine (simple_cli ''--'') [''program'', ''--help''] default_registry) =
     Fatal ''Caught exception from parsing command line: The following argument was not expected: --help''"
    by code_simp
  have e2: "fst (ParseCommandLine (simple_cli ''--'') [''program''] default_registry) =
     Fatal ''Parameter --help does not exist in this program.''"
    by code_simp
  have e3: "fst (ParseCommandLine (simple_cli []) [''program''] default_registry) = Exit 0"
    by code_simp
  note d = help_is_not_registered [OF k n, of "simple_cli ''--''" "[''program'', ''--help'']"]
  show ?thesis
    by (intro conjI k n d e1 e2 e3)
qed


section \<open>The claims about ResizeImages\<close>

lemma resize_columns_Float:
  "\<exists>rf'. resize_columns S Float images info nw nh nd (Some l) idx (rf, ru) = Inr (rf', ru)"
  by (induction idx arbitrary: rf) simp_all

lemma resize_columns_None:
  "idx \<noteq> [] \<Longrightarrow> resize_columns S eT images info nw nh nd None idx acc = Inl UninitializedRead"
  by (cases idx; cases acc) simp_all

lemma n_rows_set_col: "n_rows (set_col M i c) = n_rows M"
  by (simp add: set_col_def)

lemma n_cols_set_col: "n_cols (set_col M i c) = n_cols M"
  by (simp add: set_col_def n_cols_def)

lemma resize_columns_dims:
  "eT \<noteq> Float \<Longrightarrow>
   \<exists>ru'. resize_columns S eT images info nw nh nd (Some l) idx (rf, ru) = Inr (rf, ru') \<and>
         n_rows ru' = n_rows ru \<and> n_cols ru' = n_cols ru"
proof (induction idx arbitrary: ru)
  case Nil
  then show ?case by simp
next
  case (Cons i idx)
  have step: "\<exists>ru'. resize_columns S eT images info nw nh nd (Some l) idx (rf, set_col ru i c)
        = Inr (rf, ru') \<and> n_rows ru' = n_rows ru \<and> n_cols ru' = n_cols ru" for c
    using Cons.IH [OF Cons.prems, of "set_col ru i c"]
    by (simp add: n_rows_set_col n_cols_set_col)
  show ?case
  proof (cases eT)
    case UnsignedChar
    then show ?thesis using step by simp
  next
    case Float
    then show ?thesis using Cons.prems by simp
  next
    case OtherType
    then show ?thesis using step by simp
  qed
qed

lemma ResizeImages_dimensions:
  assumes "check_dimensions images info = None" and "pixel_layout info = Some l"
    and "eT \<noteq> Float"
  shows "\<exists>images'. ResizeImages S eT images info nw nh =
            Inr (images', info\<lparr>Width := nw, Height := nh\<rparr>) \<and>
          n_rows images' = size_t_times (size_t_times nw nh) (Channels info) \<and>
          n_cols images' = n_cols images"
proof -
  let ?nd = "size_t_times (size_t_times nw nh) (Channels info)"
  let ?ru = "set_size (fresh_memory S) ?nd (n_cols images)"
  from resize_columns_dims [OF assms(3), of S images info nw nh ?nd l "[0..<n_cols images]"
      empty_Mat ?ru]
  obtain ru' where
    "resize_columns S eT images info nw nh ?nd (Some l) [0..<n_cols images] (empty_Mat, ?ru)
       = Inr (empty_Mat, ru')"
    "n_rows ru' = n_rows ?ru" "n_cols ru' = n_cols ?ru"
    by blast
  then show ?thesis
    using assms by (simp add: ResizeImages_def Let_def set_size_def n_cols_def)
qed

text \<open>
  Claim C8. The claim: for every element type, an input that passes the dimension
  check leaves \<^verbatim>\<open>images\<close> with \<^verbatim>\<open>newWidth * newHeight * Channels\<close> rows
  and its columns, not empty when the input was not. For \<^verbatim>\<open>float\<close> the loop
  fills \<^verbatim>\<open>resizedFloatImages\<close>, but the routine moves \<^verbatim>\<open>resizedImages\<close>,
  which was never sized, into \<^verbatim>\<open>images\<close>: the result is the empty matrix
  (\<open>ResizeImages_dimensions\<close> above is the claim for the other element types).
\<close>

theorem ResizeImages_float_is_empty:
  assumes "check_dimensions images info = None" and "pixel_layout info = Some l"
  shows "ResizeImages S Float images info newWidth newHeight =
           Inr (empty_Mat, info\<lparr>Width := newWidth, Height := newHeight\<rparr>)"
proof -
  let ?nd = "size_t_times (size_t_times newWidth newHeight) (Channels info)"
  from resize_columns_Float [of S images info newWidth newHeight ?nd l "[0..<n_cols images]"
      "set_size (fresh_memory S) ?nd (n_cols images)" empty_Mat]
  obtain rf' where
    "resize_columns S Float images info newWidth newHeight ?nd (Some l) [0..<n_cols images]
       (set_size (fresh_memory S) ?nd (n_cols images), empty_Mat) = Inr (rf', empty_Mat)"
    by blast
  then show ?thesis
    using assms by (simp add: ResizeImages_def Let_def)
qed

theorem ResizeImages_float_is_empty_witness:
  "check_dimensions \<lparr>n_rows = 1, columns = [[7::nat]]\<rparr> \<lparr>Width = 1, Height = 1, Channels = 1\<rparr> = None \<and>
   pixel_layout \<lparr>Width = 1, Height = 1, Channels = 1\<rparr> = Some STBIR_1CHANNEL \<and>
   ResizeImages sample_stb Float \<lparr>n_rows = 1, columns = [[7]]\<rparr>
       \<lparr>Width = 1, Height = 1, Channels = 1\<rparr> 2 2 =
     Inr (\<lparr>n_rows = 0, columns = []\<rparr>, \<lparr>Width = 2, Height = 2, Channels = 1\<rparr>) \<and>
   ResizeImages sample_stb UnsignedChar \<lparr>n_rows = 1, columns = [[7]]\<rparr>
       \<lparr>Width = 1, Height = 1, Channels = 1\<rparr> 2 2 =
     Inr (\<lparr>n_rows = 4, columns = [[7, 7, 7, 7]]\<rparr>, \<lparr>Width = 2, Height = 2, Channels = 1\<rparr>)"
proof -
  have c: "check_dimensions \<lparr>n_rows = 1, columns = [[7::nat]]\<rparr>
      \<lparr>Width = 1, Height = 1, Channels = 1\<rparr> = None"
    by (simp add: check_dimensions_def n_cols_def n_elem_def size_t_times_def)
  have l: "pixel_layout \<lparr>Width = 1, Height = 1, Channels = 1\<rparr> = Some STBIR_1CHANNEL"
    by (simp add: pixel_layout_def)
  have u: "ResizeImages sample_stb UnsignedChar \<lparr>n_rows = 1, columns = [[7]]\<rparr>
       \<lparr>Width = 1, Height = 1, Channels = 1\<rparr> 2 2 =
     Inr (\<lparr>n_rows = 4, columns = [[7, 7, 7, 7]]\<rparr>, \<lparr>Width = 2, Height = 2, Channels = 1\<rparr>)"
    by (simp add: ResizeImages_def check_dimensions_def pixel_layout_def n_elem_def Let_def
        size_t_times_def n_cols_def set_size_def set_col_def sample_stb_def upt_conv_Cons)
  show ?thesis
    using c l u ResizeImages_float_is_empty [OF c l, of sample_stb 2 2]
    by (simp add: empty_Mat_def)
qed

text \<open>
  Claim C9. The claim: \<^verbatim>\<open>channels\<close> is assigned before the resampling routine
  reads it. It is assigned only for one and three channels, and the dimension check
  does not restrict the channels: an image with any other number of channels passes
  the check, and the first iteration of the loop reads the unassigned variable.
\<close>

theorem ResizeImages_reads_unassigned_layout:
  assumes "check_dimensions images info = None"
    and "Channels info \<noteq> 1" and "Channels info \<noteq> 3"
    and "0 < n_cols images"
  shows "ResizeImages S eT images info newWidth newHeight = Inl UninitializedRead"
proof -
  have idx: "[0..<n_cols images] \<noteq> []" using assms(4) by simp
  have layout: "pixel_layout info = None" using assms(2,3) by (simp add: pixel_layout_def)
  show ?thesis
    using assms(1) by (simp add: ResizeImages_def Let_def layout resize_columns_None [OF idx])
qed

theorem ResizeImages_reads_unassigned_layout_witness:
  "check_dimensions \<lparr>n_rows = 4, columns = [[1::nat, 2, 3, 4]]\<rparr>
      \<lparr>Width = 1, Height = 1, Channels = 4\<rparr> = None \<and>
   n_cols \<lparr>n_rows = 4, columns = [[1::nat, 2, 3, 4]]\<rparr> = 1 \<and>
   ResizeImages sample_stb UnsignedChar \<lparr>n_rows = 4, columns = [[1, 2, 3, 4]]\<rparr>
       \<lparr>Width = 1, Height = 1, Channels = 4\<rparr> 2 2 = Inl UninitializedRead"
proof -
  have c: "check_dimensions \<lparr>n_rows = 4, columns = [[1::nat, 2, 3, 4]]\<rparr>
      \<lparr>Width = 1, Height = 1, Channels = 4\<rparr> = None"
    by (simp add: check_dimensions_def n_cols_def n_elem_def size_t_times_def)
  have n: "n_cols \<lparr>n_rows = 4, columns = [[1::nat, 2, 3, 4]]\<rparr> = 1"
    by (simp add: n_cols_def)
  have p: "0 < n_cols \<lparr>n_rows = 4, columns = [[1::nat, 2, 3, 4]]\<rparr>" using n by simp
  have c1: "Channels \<lparr>Width = 1, Height = 1, Channels = 4\<rparr> \<noteq> 1" by simp
  have c3: "Channels \<lparr>Width = 1, Height = 1, Channels = 4\<rparr> \<noteq> 3" by simp
  show ?thesis
    using c n ResizeImages_reads_unassigned_layout [OF c c1 c3 p, of sample_stb UnsignedChar 2 2]
    by simp
qed

section \<open>The claim about linear_regression_predict\<close>

lemma RequireOnlyOnePassed_single:
  "RequireOnlyOnePassed [(n, b)] True = (if b then None else Some (''Must specify one of: '' @ n))"
  by (simp add: RequireOnlyOnePassed_def)

text \<open>
  Claim C10, as amended. The binding fails fatally exactly when \<^verbatim>\<open>input_model\<close>
  was not passed, or \<^verbatim>\<open>test\<close> was not passed, or the number of rows of the test
  matrix differs from the number of coefficients minus one (a \<^verbatim>\<open>size_t\<close>
  difference). When it succeeds it stores one prediction for each column of the test
  matrix and leaves the model as it was.
\<close>

theorem linear_regression_predict_result:
  "((\<exists>e. linear_regression_predict params = Inl e) \<longleftrightarrow>
      (\<not> input_model_passed params \<or> \<not> test_passed params \<or>
       size_t_minus (length (Parameters (input_model params))) 1 \<noteq> n_rows (test params))) \<and>
   (\<forall>params'. linear_regression_predict params = Inr params' \<longrightarrow>
      length (output_predictions params') = n_cols (test params) \<and>
      input_model params' = input_model params)"
  by (auto simp: linear_regression_predict_def RequireOnlyOnePassed_single Let_def Predict_def
      n_cols_def)

theorem linear_regression_predict_result_witness:
  "linear_regression_predict
     \<lparr>input_model_passed = True, input_model = \<lparr>Parameters = [1, 2]\<rparr>,
      test_passed = True, test = \<lparr>n_rows = 1, columns = [[3], [4], [5]]\<rparr>,
      output_predictions = []\<rparr> =
     Inr \<lparr>input_model_passed = True, input_model = \<lparr>Parameters = [1, 2]\<rparr>,
          test_passed = True, test = empty_Mat, output_predictions = [7, 9, 11]\<rparr> \<and>
   length [7, 9, 11 :: real] = n_cols \<lparr>n_rows = 1, columns = [[3 :: real], [4], [5]]\<rparr> \<and>
   (\<exists>e. linear_regression_predict
     \<lparr>input_model_passed = True, input_model = \<lparr>Parameters = [1, 2]\<rparr>,
      test_passed = True, test = \<lparr>n_rows = 2, columns = [[3, 0], [4, 0]]\<rparr>,
      output_predictions = []\<rparr> = Inl e)"
proof -
  let ?p = "\<lparr>input_model_passed = True, input_model = \<lparr>Parameters = [1, 2]\<rparr>,
      test_passed = True, test = \<lparr>n_rows = 1, columns = [[3], [4], [5]]\<rparr>,
      output_predictions = []\<rparr>"
  let ?q = "\<lparr>input_model_passed = True, input_model = \<lparr>Parameters = [1, 2]\<rparr>,
      test_passed = True, test = \<lparr>n_rows = 2, columns = [[3, 0], [4, 0]]\<rparr>,
      output_predictions = []\<rparr>"
  have run: "linear_regression_predict ?p =
     Inr \<lparr>input_model_passed = True, input_model = \<lparr>Parameters = [1, 2]\<rparr>,
          test_passed = True, test = empty_Mat, output_predictions = [7, 9, 11]\<rparr>"
    by (simp add: linear_regression_predict_def RequireOnlyOnePassed_single size_t_minus_def
        Let_def Predict_def predict_point_def)
  have len: "length [7, 9, 11 :: real] = n_cols \<lparr>n_rows = 1, columns = [[3 :: real], [4], [5]]\<rparr>"
    using linear_regression_predict_result [of ?p] run by simp
  have differs: "size_t_minus (length (Parameters (input_model ?q))) 1 \<noteq> n_rows (test ?q)"
    by (simp add: size_t_minus_def)
  have fails: "\<exists>e. linear_regression_predict ?q = Inl e"
    using linear_regression_predict_result [of ?q] differs by blast
  show ?thesis by (intro conjI run len fails)
qed

text \<open>
  The claim as stated, a fatal error exactly when the dimensions differ, fails when the
  dimensions agree and \<^verbatim>\<open>test\<close> was not passed: \<^verbatim>\<open>RequireOnlyOnePassed\<close>
  fails first.
\<close>

theorem linear_regression_predict_counterexample:
  "size_t_minus (length (Parameters \<lparr>Parameters = [2]\<rparr>)) 1 = n_rows (empty_Mat :: real Mat) \<and>
   linear_regression_predict
     \<lparr>input_model_passed = True, input_model = \<lparr>Parameters = [2]\<rparr>,
      test_passed = False, test = empty_Mat, output_predictions = []\<rparr> =
     Inl ''Must specify one of: test''"
  by (simp add: linear_regression_predict_def RequireOnlyOnePassed_single size_t_minus_def
      empty_Mat_def)

end
